theory Spec2Isabelle
  imports Complex_Main "HOL-Library.Code_Target_Nat"
begin

section \<open>Strings, Python errors and the Unicode tables\<close>

text \<open>
  A Python \<open>str\<close> is a sequence of Unicode code points, and \<open>len\<close>, indexing and
  the \<open>re\<close> module count code points. A character is therefore modelled by its code
  point and a string by the list of its code points; \<open>ascii\<close> reads an ASCII literal.
\<close>

type_synonym uchar = nat
type_synonym ustring = "uchar list"

definition ascii :: "string \<Rightarrow> ustring" where
  "ascii s = map of_char s"

datatype error =
    TypeError | AttributeError | IndexError | ValueError | OSError | NameError | OtherError

text \<open>
  The character classes of the Unicode database that the code reaches through
  \<open>str.strip\<close>, \<open>str.split\<close>, \<open>str.lower\<close>, \<open>str.isnumeric\<close> and the regular
  expression classes \<open>\w\<close> and \<open>\W\<close>. They are data of the Python runtime, so they are
  parameters of the model.
\<close>

record unicode =
  isspace :: "uchar \<Rightarrow> bool"
  isword :: "uchar \<Rightarrow> bool"
  isnumeric_char :: "uchar \<Rightarrow> bool"
  lower :: "ustring \<Rightarrow> ustring"

definition startswith :: "ustring \<Rightarrow> ustring \<Rightarrow> bool" where
  "startswith p s = (take (length p) s = p)"

text \<open>\<open>p in s\<close> for strings: \<open>p\<close> occurs in \<open>s\<close> as a contiguous substring.\<close>

fun contains :: "ustring \<Rightarrow> ustring \<Rightarrow> bool" where
  "contains p [] = (p = [])"
| "contains p (c # cs) = (startswith p (c # cs) \<or> contains p cs)"

text \<open>
  \<open>s.replace(old, new)\<close> for a non-empty \<open>old\<close>: the non-overlapping occurrences are
  replaced from left to right. (The code never calls it with an empty \<open>old\<close>; the
  model leaves the string unchanged there.)
\<close>

function str_replace :: "ustring \<Rightarrow> ustring \<Rightarrow> ustring \<Rightarrow> ustring" where
  "str_replace old new [] = []"
| "str_replace old new (c # cs) =
     (if old \<noteq> [] \<and> startswith old (c # cs)
      then new @ str_replace old new (drop (length old) (c # cs))
      else c # str_replace old new cs)"
  by pat_completeness auto
termination
  by (relation "measure (\<lambda>(old, new, s). length s)") (auto simp: startswith_def)

definition str_strip :: "unicode \<Rightarrow> ustring \<Rightarrow> ustring" where
  "str_strip u s = rev (dropWhile (isspace u) (rev (dropWhile (isspace u) s)))"

section \<open>The Text Normalizer: \<open>_clean_text_strings\<close>\<close>

text \<open>
  \<open>re.sub(pattern, repl, s)\<close> scans \<open>s\<close> from the left. A matcher stands for one
  pattern together with its replacement template: applied to the rest of the string it
  returns the number of characters the leftmost match at this position consumes and the
  expanded replacement. No pattern of \<open>_clean_text_strings\<close> has an anchor, a
  look-behind or a word boundary, so a match depends on the rest of the string only, and
  none of them matches the empty string.
\<close>

type_synonym matcher = "ustring \<Rightarrow> (nat \<times> ustring) option"

function re_sub :: "matcher \<Rightarrow> ustring \<Rightarrow> ustring" where
  "re_sub m [] = (case m [] of None \<Rightarrow> [] | Some (n, rep) \<Rightarrow> rep)"
| "re_sub m (c # cs) =
     (case m (c # cs) of
        None \<Rightarrow> c # re_sub m cs
      | Some (n, rep) \<Rightarrow>
          if n = 0 then rep @ c # re_sub m cs
          else rep @ re_sub m (drop n (c # cs)))"
  by pat_completeness auto
termination
  by (relation "measure (\<lambda>(m, s). length s)") auto

definition is_az :: "uchar \<Rightarrow> bool" where
  "is_az c = (97 \<le> c \<and> c \<le> 122)"

definition is_AZ :: "uchar \<Rightarrow> bool" where
  "is_AZ c = (65 \<le> c \<and> c \<le> 90)"

text \<open>\<open>re.sub(r"([a-z])([A-Z])", r"\1\. \2", s)\<close>: the template keeps the
  backslash of \<open>\.\<close>, which is not an escape of the template language.\<close>

definition pat_lower_upper :: matcher where
  "pat_lower_upper s =
     (case s of
        a # b # _ \<Rightarrow> if is_az a \<and> is_AZ b then Some (2, [a, 92, 46, 32, b]) else None
      | _ \<Rightarrow> None)"

text \<open>\<open>re.sub(r"&gt|&lt", " ", s)\<close>\<close>

definition pat_gt_lt :: matcher where
  "pat_gt_lt s =
     (if startswith (ascii ''&gt'') s then Some (3, ascii '' '')
      else if startswith (ascii ''&lt'') s then Some (3, ascii '' '')
      else None)"

text \<open>\<open>re.sub(r"([a-z])\1{2,}", r"\1", s)\<close>: a letter and at least two more copies
  of it, greedily.\<close>

definition pat_letter_run :: matcher where
  "pat_letter_run s =
     (case s of
        [] \<Rightarrow> None
      | c # cs \<Rightarrow>
          let k = length (takeWhile (\<lambda>d. d = c) cs)
          in if is_az c \<and> 2 \<le> k then Some (Suc k, [c]) else None)"

text \<open>\<open>re.sub(r"([\W+])\1{1,}", r"\1", s)\<close>: the class holds the non-word characters
  and the plus sign (code point 43).\<close>

definition pat_nonword_run :: "unicode \<Rightarrow> matcher" where
  "pat_nonword_run u s =
     (case s of
        [] \<Rightarrow> None
      | c # cs \<Rightarrow>
          let k = length (takeWhile (\<lambda>d. d = c) cs)
          in if (\<not> isword u c \<or> c = 43) \<and> 1 \<le> k then Some (Suc k, [c]) else None)"

text \<open>\<open>re.sub(r"\*|\W\*|\*\W", ". ", s)\<close>: the alternatives are tried in order; the
  asterisk is code point 42.\<close>

definition pat_asterisk :: "unicode \<Rightarrow> matcher" where
  "pat_asterisk u s =
     (case s of
        [] \<Rightarrow> None
      | c # cs \<Rightarrow>
          if c = 42 then Some (1, ascii ''. '')
          else if \<not> isword u c \<and> (case cs of [] \<Rightarrow> False | d # _ \<Rightarrow> d = 42)
          then Some (2, ascii ''. '')
          else if c = 42 \<and> (case cs of [] \<Rightarrow> False | d # _ \<Rightarrow> \<not> isword u d)
          then Some (2, ascii ''. '')
          else None)"

text \<open>\<open>re.sub(r"\(.*?\)", ". ", s)\<close>: after the opening parenthesis (40) the lazy
  \<open>.*?\<close> stops at the first closing parenthesis (41) and cannot cross a newline (10).\<close>

fun lazy_to_rparen :: "ustring \<Rightarrow> nat option" where
  "lazy_to_rparen [] = None"
| "lazy_to_rparen (c # cs) =
     (if c = 41 then Some 0
      else if c = 10 then None
      else map_option Suc (lazy_to_rparen cs))"

definition pat_parens :: matcher where
  "pat_parens s =
     (case s of
        [] \<Rightarrow> None
      | c # cs \<Rightarrow>
          if c = 40
          then (case lazy_to_rparen cs of None \<Rightarrow> None | Some k \<Rightarrow> Some (k + 2, ascii ''. ''))
          else None)"

text \<open>\<open>re.sub(r"\W+?\.", ".", s)\<close>: one non-word character, then lazily more of
  them up to the first full stop (46).\<close>

fun lazy_to_dot :: "unicode \<Rightarrow> ustring \<Rightarrow> nat option" where
  "lazy_to_dot u [] = None"
| "lazy_to_dot u (c # cs) =
     (if c = 46 then Some 0
      else if \<not> isword u c then map_option Suc (lazy_to_dot u cs)
      else None)"

definition pat_nonword_dot :: "unicode \<Rightarrow> matcher" where
  "pat_nonword_dot u s =
     (case s of
        [] \<Rightarrow> None
      | c # cs \<Rightarrow>
          if \<not> isword u c
          then (case lazy_to_dot u cs of None \<Rightarrow> None | Some k \<Rightarrow> Some (k + 2, ascii ''.''))
          else None)"

text \<open>\<open>re.sub(r"(\.|\?|!)(\w)", r"\1 \2", s)\<close>\<close>

definition pat_punct_word :: "unicode \<Rightarrow> matcher" where
  "pat_punct_word u s =
     (case s of
        a # b # _ \<Rightarrow>
          if (a = 46 \<or> a = 63 \<or> a = 33) \<and> isword u b then Some (2, [a, 32, b]) else None
      | _ \<Rightarrow> None)"

text \<open>\<open>re.sub(r" ing ", " ", s)\<close>\<close>

definition pat_ing :: matcher where
  "pat_ing s = (if startswith (ascii '' ing '') s then Some (5, ascii '' '') else None)"

text \<open>\<open>re.sub(r"product received for free[.| ]", " ", s)\<close>: the class holds the
  full stop, the vertical bar (124) and the space.\<close>

definition pat_free :: matcher where
  "pat_free s =
     (let p = ascii ''product received for free''
      in if startswith p s
            \<and> (case drop (length p) s of [] \<Rightarrow> False | c # _ \<Rightarrow> c = 46 \<or> c = 124 \<or> c = 32)
         then Some (length p + 1, ascii '' '')
         else None)"

text \<open>\<open>re.sub(r"(.{2,}?)\1{1,}", r"\1", s)\<close>: the group lazily takes the shortest
  block of at least two characters without a newline that is followed by a copy of
  itself; the copies are then consumed greedily.\<close>

function count_reps :: "ustring \<Rightarrow> ustring \<Rightarrow> nat" where
  "count_reps x t =
     (if x \<noteq> [] \<and> startswith x t then Suc (count_reps x (drop (length x) t)) else 0)"
  by pat_completeness auto
termination
proof (relation "measure (\<lambda>(x, t). length t)")
  show "wf (measure (\<lambda>(x, t). length t))" by simp
next
  fix x t :: ustring
  assume a: "x \<noteq> [] \<and> startswith x t"
  then have "length x \<le> length t"
    by (metis startswith_def length_take min.cobounded1)
  with a show "((x, drop (length x) t), (x, t)) \<in> measure (\<lambda>(x, t). length t)"
    by (cases x) auto
qed

declare count_reps.simps [simp del]

definition block_repeats :: "ustring \<Rightarrow> nat \<Rightarrow> bool" where
  "block_repeats s n =
     (n \<le> length s \<and> 10 \<notin> set (take n s) \<and> startswith (take n s) (drop n s))"

definition pat_repeat :: matcher where
  "pat_repeat s =
     (case List.find (block_repeats s) [2 ..< Suc (length s div 2)] of
        None \<Rightarrow> None
      | Some n \<Rightarrow> Some (n * Suc (count_reps (take n s) (drop n s)), take n s))"

text \<open>The source's \<open>_clean_text_strings\<close> (a constant name cannot start with an
  underscore).\<close>

definition clean_text_strings :: "unicode \<Rightarrow> ustring \<Rightarrow> ustring" where
  "clean_text_strings u s0 =
     (let s = re_sub pat_lower_upper s0;
          s = lower u s;
          s = re_sub pat_gt_lt s;
          s = re_sub pat_letter_run s;
          s = re_sub (pat_nonword_run u) s;
          s = re_sub (pat_asterisk u) s;
          s = re_sub pat_parens s;
          s = re_sub (pat_nonword_dot u) s;
          s = re_sub (pat_punct_word u) s;
          s = re_sub pat_ing s;
          s = re_sub pat_free s;
          s = re_sub pat_repeat s
      in str_strip u s)"

section \<open>Collaborators of the pipeline\<close>

text \<open>
  What a loaded spaCy pipeline gives for a text: its tokens, each with its text, its
  lemma and its coarse part-of-speech tag.
\<close>

record token =
  tok_text :: ustring
  tok_lemma :: ustring
  tok_pos :: ustring

type_synonym nlp = "ustring \<Rightarrow> token list"

text \<open>
  The libraries and tables the code calls are parameters of the model:
  \<^item> \<open>lem_abbr_dict\<close>, \<open>stem_abbr_dict\<close>, \<open>sw_abbr_dict\<close>: the dictionaries of the
    module \<open>kwgen.languages\<close>, as association lists from key to value;
  \<^item> \<open>emoji_sub\<close>: \<open>emoji.get_emoji_regexp().sub("", s)\<close>;
  \<^item> \<open>stopwords\<close>: \<open>stopwordsiso.stopwords\<close>, the elements of the returned set
    (empty for a language it does not know);
  \<^item> \<open>Phrases\<close>: gensim's phrase model, \<open>Phrases e sentences min_count threshold\<close>
    being the trained model applied to one sentence (\<open>bigrams[sentence]\<close>), which
    returns the sentence with each detected pair merged into one token joined by an
    underscore;
  \<^item> \<open>spacy_load\<close>: \<open>spacy.load\<close>, before (\<open>False\<close>) and after (\<open>True\<close>) the
    download command has run;
  \<^item> \<open>snowball_languages\<close> and \<open>snowball_stem\<close>: \<open>SnowballStemmer.languages\<close> and
    the \<open>stem\<close> method of the stemmer of a language;
  \<^item> \<open>random_choices e n k\<close>: \<open>random.choices(range(n), k=k)\<close>;
  \<^item> \<open>float_mul e x n\<close>: the Python product \<open>x * n\<close> of the sample size and a
    length (exact for an \<open>int\<close>, the nearest double for a \<open>float\<close>).
\<close>

record env =
  ucd :: unicode
  lem_abbr_dict :: "(ustring \<times> ustring) list"
  stem_abbr_dict :: "(ustring \<times> ustring) list"
  sw_abbr_dict :: "(ustring \<times> ustring) list"
  emoji_sub :: "ustring \<Rightarrow> ustring"
  stopwords :: "ustring \<Rightarrow> ustring list"
  Phrases :: "ustring list list \<Rightarrow> nat \<Rightarrow> rat \<Rightarrow> ustring list \<Rightarrow> ustring list"
  spacy_load :: "bool \<Rightarrow> ustring \<Rightarrow> error + nlp"
  snowball_languages :: "ustring list"
  snowball_stem :: "ustring \<Rightarrow> ustring \<Rightarrow> ustring"
  random_choices :: "nat \<Rightarrow> int \<Rightarrow> nat list"
  float_mul :: "rat \<Rightarrow> nat \<Rightarrow> rat"

text \<open>Python values that can stand where a response or a table cell is expected.\<close>

datatype pyval = PyStr ustring | PyNone | PyInt int

text \<open>The argument \<open>responses\<close> is a single string or a list.\<close>

datatype responses = Single ustring | Many "pyval list"

text \<open>\<open>min_freq\<close> and \<open>min_word_len\<close>: \<open>None\<close>, a Boolean or an integer.\<close>

datatype pymin = MinNone | MinBool bool | MinInt int

fun mapM :: "('a \<Rightarrow> error + 'b) \<Rightarrow> 'a list \<Rightarrow> error + 'b list" where
  "mapM f [] = Inr []"
| "mapM f (x # xs) =
     (case f x of
        Inl err \<Rightarrow> Inl err
      | Inr y \<Rightarrow> (case mapM f xs of Inl err \<Rightarrow> Inl err | Inr ys \<Rightarrow> Inr (y # ys)))"

definition py_index :: "'a list \<Rightarrow> nat \<Rightarrow> error + 'a" where
  "py_index xs i = (if i < length xs then Inr (xs ! i) else Inl IndexError)"

section \<open>The Tokenizer and Filter: \<open>clean_and_tokenize_texts\<close>\<close>

definition resolve_language :: "env \<Rightarrow> ustring \<Rightarrow> ustring" where
  "resolve_language e input_language =
     (case map_of (lem_abbr_dict e) input_language of
        Some abbr \<Rightarrow> abbr
      | None \<Rightarrow> input_language)"

text \<open>The loop \<open>for i in range(n, 0, -1)\<close> over the runs of spaces (32).\<close>

fun collapse_spaces :: "nat \<Rightarrow> ustring \<Rightarrow> ustring" where
  "collapse_spaces 0 r = r"
| "collapse_spaces (Suc i) r =
     collapse_spaces i
       (let large_space = replicate (Suc i) 32
        in if contains large_space r then str_replace large_space [32] r else r)"

text \<open>\<open>large_space in r\<close> raises \<open>TypeError\<close> when \<open>r\<close> is \<open>None\<close> or a number.\<close>

fun no_large_spaces :: "pyval \<Rightarrow> error + ustring" where
  "no_large_spaces (PyStr r) = Inr (collapse_spaces 25 r)"
| "no_large_spaces PyNone = Inl TypeError"
| "no_large_spaces (PyInt n) = Inl TypeError"

definition no_random_punctuation :: "ustring \<Rightarrow> ustring \<Rightarrow> ustring" where
  "no_random_punctuation input_language r0 =
     (let r = str_replace (ascii ''/'') (ascii '' '') r0;
          r = str_replace (ascii ''-'') (ascii '' '') r
      in if input_language = ascii ''fr'' then str_replace (ascii ''d'' @ [39]) [] r else r)"

text \<open>\<open>string.punctuation\<close>, then the en dash and the right single quotation mark.\<close>

definition punctuation :: "uchar list" where
  "punctuation = [33 ..< 48] @ [58 ..< 65] @ [91 ..< 97] @ [123 ..< 127] @ [8211, 8217]"

definition no_punctuation :: "ustring \<Rightarrow> ustring" where
  "no_punctuation r = filter (\<lambda>c. c \<notin> set punctuation) r"

definition select_stop_words :: "env \<Rightarrow> ustring \<Rightarrow> ustring list" where
  "select_stop_words e input_language =
     (if stopwords e input_language \<noteq> [] then stopwords e input_language
      else case map_of (stem_abbr_dict e) input_language of
        Some l \<Rightarrow> stopwords e l
      | None \<Rightarrow>
          (case map_of (sw_abbr_dict e) input_language of
             Some l \<Rightarrow> stopwords e l
           | None \<Rightarrow> []))"

text \<open>\<open>s.split()\<close>: the maximal runs of characters that are not white space.\<close>

fun split_from :: "unicode \<Rightarrow> ustring \<Rightarrow> ustring \<Rightarrow> ustring list" where
  "split_from u word [] = (if word = [] then [] else [word])"
| "split_from u word (c # cs) =
     (if isspace u c
      then (if word = [] then split_from u [] cs else word # split_from u [] cs)
      else split_from u (word @ [c]) cs)"

definition str_split :: "unicode \<Rightarrow> ustring \<Rightarrow> ustring list" where
  "str_split u s = split_from u [] s"

definition str_isnumeric :: "unicode \<Rightarrow> ustring \<Rightarrow> bool" where
  "str_isnumeric u word = (word \<noteq> [] \<and> list_all (isnumeric_char u) word)"

definition tokenize :: "env \<Rightarrow> ustring list \<Rightarrow> ustring \<Rightarrow> ustring list" where
  "tokenize e stop_words text =
     filter (\<lambda>word. word \<notin> set stop_words \<and> \<not> str_isnumeric (ucd e) word)
       (str_split (ucd e) (lower (ucd e) text))"

text \<open>
  The bigram loop: every token of the phrase model's output that contains an underscore
  (95) is inserted at index 0 of the response's own token list.
\<close>

definition insert_bigrams :: "ustring list \<Rightarrow> ustring list \<Rightarrow> ustring list" where
  "insert_bigrams phrased tokens =
     foldl (\<lambda>toks token. if 95 \<in> set token then token # toks else toks) tokens phrased"

definition add_bigrams :: "env \<Rightarrow> ustring list list \<Rightarrow> ustring list list" where
  "add_bigrams e tokenized_texts =
     (let bigrams = Phrases e tokenized_texts 3 5
      in map (\<lambda>tokens. insert_bigrams (bigrams tokens) tokens) tokenized_texts)"

fun str_join :: "ustring \<Rightarrow> ustring list \<Rightarrow> ustring" where
  "str_join sep [] = []"
| "str_join sep [w] = w"
| "str_join sep (w # ws) = w @ sep @ str_join sep ws"

text \<open>
  The source's \<open>_combine_tokens_to_str\<close> on a list of strings with no ignore words:
  \<open>responses[0]\<close> raises \<open>IndexError\<close> on the empty list.
\<close>

definition combine_tokens_to_str :: "ustring list \<Rightarrow> error + ustring" where
  "combine_tokens_to_str words =
     (case words of [] \<Rightarrow> Inl IndexError | _ \<Rightarrow> Inr (str_join (ascii '' '') words))"

definition allowed_pos_tags :: "ustring list" where
  "allowed_pos_tags =
     [ascii ''NOUN'', ascii ''PROPN'', ascii ''ADJ'', ascii ''ADV'', ascii ''VERB'']"

definition lemmatize :: "nlp \<Rightarrow> ustring list list \<Rightarrow> error + ustring list list" where
  "lemmatize nlp tokens =
     mapM (\<lambda>toks.
        case combine_tokens_to_str toks of
          Inl err \<Rightarrow> Inl err
        | Inr combined_tokens \<Rightarrow>
            Inr (map tok_lemma
                  (filter (\<lambda>t. tok_pos t \<in> set allowed_pos_tags) (nlp combined_tokens))))
       tokens"

text \<open>
  The two \<open>try\<close> blocks. The result \<open>Some l\<close> is a loaded model with
  \<open>lemmatized_tokens = l\<close>, \<open>None\<close> is \<open>nlp == None\<close>. Only \<open>OSError\<close> leads to the
  second attempt; there every exception is swallowed, and one raised by \<open>lemmatize\<close>
  after a successful load leaves \<open>lemmatized_tokens\<close> unbound.
\<close>

definition try_lemmatize ::
  "env \<Rightarrow> ustring \<Rightarrow> ustring list list \<Rightarrow> error + ustring list list option" where
  "try_lemmatize e input_language tokens_with_bigrams =
     (case spacy_load e False input_language of
        Inr nlp \<Rightarrow>
          (case lemmatize nlp tokens_with_bigrams of
             Inl err \<Rightarrow> Inl err
           | Inr l \<Rightarrow> Inr (Some l))
      | Inl err \<Rightarrow>
          if err = OSError
          then (case spacy_load e True input_language of
                  Inl err2 \<Rightarrow> Inr None
                | Inr nlp \<Rightarrow>
                    (case lemmatize nlp tokens_with_bigrams of
                       Inl err2 \<Rightarrow> Inl NameError
                     | Inr l \<Rightarrow> Inr (Some l)))
          else Inl err)"

text \<open>The constructor raises \<open>ValueError\<close> for a language that is not in
  \<open>SnowballStemmer.languages\<close>.\<close>

definition SnowballStemmer :: "env \<Rightarrow> ustring \<Rightarrow> error + (ustring \<Rightarrow> ustring)" where
  "SnowballStemmer e language =
     (if language \<in> set (snowball_languages e) then Inr (snowball_stem e language)
      else Inl ValueError)"

definition select_stemmer :: "env \<Rightarrow> ustring \<Rightarrow> error + (ustring \<Rightarrow> ustring) option" where
  "select_stemmer e input_language =
     (if input_language \<in> set (snowball_languages e)
      then map_sum id Some (SnowballStemmer e input_language)
      else if input_language = ascii ''ar''
      then map_sum id Some (SnowballStemmer e (ascii ''arabic''))
      else if input_language = ascii ''fi''
      then map_sum id Some (SnowballStemmer e (ascii ''finish''))
      else if input_language = ascii ''hu''
      then map_sum id Some (SnowballStemmer e (ascii ''hungarian''))
      else if input_language = ascii ''sv''
      then map_sum id Some (SnowballStemmer e (ascii ''swedish''))
      else Inr None)"

definition stem_or_pass ::
  "env \<Rightarrow> ustring \<Rightarrow> ustring list list \<Rightarrow> error + ustring list list" where
  "stem_or_pass e input_language tokens_with_bigrams =
     (case select_stemmer e input_language of
        Inl err \<Rightarrow> Inl err
      | Inr (Some stem) \<Rightarrow> Inr (map (map stem) tokens_with_bigrams)
      | Inr None \<Rightarrow> Inr tokens_with_bigrams)"

definition lemmatize_or_stem ::
  "env \<Rightarrow> ustring \<Rightarrow> ustring list list \<Rightarrow> error + ustring list list" where
  "lemmatize_or_stem e input_language tokens_with_bigrams =
     (case try_lemmatize e input_language tokens_with_bigrams of
        Inl err \<Rightarrow> Inl err
      | Inr (Some lemmatized_tokens) \<Rightarrow> Inr lemmatized_tokens
      | Inr None \<Rightarrow> stem_or_pass e input_language tokens_with_bigrams)"

text \<open>
  The frequency table is a \<open>defaultdict(int)\<close>: a total function with value 0 outside
  the keys. Each response bumps every element of \<open>set(tokens)\<close> once.
\<close>

definition count_tokens :: "(ustring \<Rightarrow> nat) \<Rightarrow> ustring list \<Rightarrow> (ustring \<Rightarrow> nat)" where
  "count_tokens freq tokens = foldl (\<lambda>f t. f(t := f t + 1)) freq (remdups tokens)"

definition token_frequencies :: "ustring list list \<Rightarrow> (ustring \<Rightarrow> nat)" where
  "token_frequencies lemmatized_tokens = foldl count_tokens (\<lambda>t. 0) lemmatized_tokens"

text \<open>\<open>if m == None or m == False: m = 0\<close>; in a comparison \<open>True\<close> is 1.\<close>

fun norm_min :: "pymin \<Rightarrow> int" where
  "norm_min MinNone = 0"
| "norm_min (MinBool b) = (if b then 1 else 0)"
| "norm_min (MinInt n) = n"

definition min_len_freq ::
  "pymin \<Rightarrow> pymin \<Rightarrow> ustring list list \<Rightarrow> ustring list list" where
  "min_len_freq min_freq min_word_len lemmatized_tokens =
     (let freq = token_frequencies lemmatized_tokens
      in map (filter (\<lambda>t. norm_min min_word_len \<le> int (length t)
                           \<and> norm_min min_freq \<le> int (freq t)))
           lemmatized_tokens)"

definition non_empty_token_indexes :: "ustring list list \<Rightarrow> nat list" where
  "non_empty_token_indexes toks = filter (\<lambda>i. toks ! i \<noteq> []) [0 ..< length toks]"

text \<open>\<open>_clean_text_strings(s=responses[i])\<close>\<close>

definition clean_response :: "unicode \<Rightarrow> pyval list \<Rightarrow> nat \<Rightarrow> error + ustring" where
  "clean_response u rs i =
     (case py_index rs i of
        Inl err \<Rightarrow> Inl err
      | Inr (PyStr s) \<Rightarrow> Inr (clean_text_strings u s)
      | Inr _ \<Rightarrow> Inl TypeError)"

text \<open>\<open>int(x)\<close> truncates toward zero.\<close>

definition py_int :: "rat \<Rightarrow> int" where
  "py_int x = (if 0 \<le> x then \<lfloor>x\<rfloor> else \<lceil>x\<rceil>)"

definition select_idxs :: "env \<Rightarrow> rat \<Rightarrow> nat \<Rightarrow> nat list" where
  "select_idxs e sample_size n =
     (if sample_size \<noteq> 1 then random_choices e n (py_int (float_mul e sample_size n))
      else [0 ..< n])"

text \<open>
  Everything up to the sampling: the token lists (\<open>text_corpus\<close>) and the clean texts
  of the surviving responses.
\<close>

definition surviving ::
  "env \<Rightarrow> responses \<Rightarrow> ustring \<Rightarrow> pymin \<Rightarrow> pymin
     \<Rightarrow> error + (ustring list list \<times> ustring list)" where
  "surviving e responses0 input_language0 min_freq min_word_len =
     (let input_language = resolve_language e (lower (ucd e) input_language0);
          responses = (case responses0 of Single s \<Rightarrow> [PyStr s] | Many rs \<Rightarrow> rs)
      in case mapM no_large_spaces responses of
           Inl err \<Rightarrow> Inl err
         | Inr responses_no_large_spaces \<Rightarrow>
      let responses_no_random_punctuation =
            map (no_random_punctuation input_language) responses_no_large_spaces;
          responses_no_punctuation = map no_punctuation responses_no_random_punctuation;
          responses_no_emojis = map (emoji_sub e) responses_no_punctuation;
          stop_words = select_stop_words e input_language;
          tokenized_texts =
            filter (\<lambda>t. t \<noteq> []) (map (tokenize e stop_words) responses_no_emojis);
          tokens_with_bigrams = add_bigrams e tokenized_texts
      in case lemmatize_or_stem e input_language tokens_with_bigrams of
           Inl err \<Rightarrow> Inl err
         | Inr lemmatized_tokens \<Rightarrow>
      let min_len_freq_tokens = min_len_freq min_freq min_word_len lemmatized_tokens;
          idxs = non_empty_token_indexes min_len_freq_tokens;
          text_corpus = map (\<lambda>i. min_len_freq_tokens ! i) idxs
      in case mapM (clean_response (ucd e) responses) idxs of
           Inl err \<Rightarrow> Inl err
         | Inr clean_texts \<Rightarrow> Inr (text_corpus, clean_texts))"

definition sample ::
  "env \<Rightarrow> rat \<Rightarrow> ustring list list \<times> ustring list
     \<Rightarrow> error + (ustring list list \<times> ustring list \<times> nat list)" where
  "sample e sample_size p =
     (case p of (text_corpus, clean_texts) \<Rightarrow>
        let selected_idxs = select_idxs e sample_size (length text_corpus)
        in case mapM (py_index text_corpus) selected_idxs of
             Inl err \<Rightarrow> Inl err
           | Inr text_corpus' \<Rightarrow>
               (case mapM (py_index clean_texts) selected_idxs of
                  Inl err \<Rightarrow> Inl err
                | Inr clean_texts' \<Rightarrow> Inr (text_corpus', clean_texts', selected_idxs)))"

definition clean_and_tokenize_texts ::
  "env \<Rightarrow> responses \<Rightarrow> ustring \<Rightarrow> pymin \<Rightarrow> pymin \<Rightarrow> rat
     \<Rightarrow> error + (ustring list list \<times> ustring list \<times> nat list)" where
  "clean_and_tokenize_texts e responses input_language min_freq min_word_len sample_size =
     (case surviving e responses input_language min_freq min_word_len of
        Inl err \<Rightarrow> Inl err
      | Inr p \<Rightarrow> sample e sample_size p)"

section \<open>The caller \<open>prepare_data\<close>\<close>

text \<open>
  \<open>load_data\<close> reads the table with pandas; the model starts from the loaded table, a
  list of rows, each giving the cell of a column name. A row's text is built from the
  cells of the included columns whose type is \<open>str\<close>; \<open>text[1:]\<close> then removes the
  first blank.
\<close>

definition included_cols :: "bool \<Rightarrow> ustring list" where
  "included_cols incl_mc_questions =
     (if incl_mc_questions
      then [ascii ''val_benefit'', ascii ''val_personal'', ascii ''most_important'',
            ascii ''mission_description'', ascii ''higher_purpose'']
      else [ascii ''most_important'', ascii ''mission_description'',
            ascii ''higher_purpose''])"

definition row_text :: "ustring list \<Rightarrow> (ustring \<Rightarrow> pyval) \<Rightarrow> ustring" where
  "row_text cols row =
     drop 1 (foldl (\<lambda>text c. case row c of PyStr v \<Rightarrow> text @ ascii '' '' @ v | _ \<Rightarrow> text)
               [] cols)"

definition raw_texts :: "(ustring \<Rightarrow> pyval) list \<Rightarrow> bool \<Rightarrow> pyval list" where
  "raw_texts df_responses incl_mc_questions =
     map (\<lambda>row. PyStr (row_text (included_cols incl_mc_questions) row)) df_responses"

definition prepare_data ::
  "env \<Rightarrow> (ustring \<Rightarrow> pyval) list \<Rightarrow> ustring \<Rightarrow> bool \<Rightarrow> pymin \<Rightarrow> pymin \<Rightarrow> rat
     \<Rightarrow> error + (ustring list list \<times> ustring list \<times> nat list)" where
  "prepare_data e df_responses input_language incl_mc_questions min_freq min_word_len
       sample_size =
     clean_and_tokenize_texts e (Many (raw_texts df_responses incl_mc_questions))
       (resolve_language e (lower (ucd e) input_language)) min_freq min_word_len sample_size"

section \<open>The Output Orderer: \<open>_order_by_pos\<close>\<close>





section \<open>A concrete environment\<close>

text \<open>
  The concrete inputs below run in this environment. Its Unicode tables are those of
  Python on the ASCII code points (and the white space of Latin-1); outside ASCII they
  treat every character as a non-word, non-numeric character without case.
\<close>

definition basic_isspace :: "uchar \<Rightarrow> bool" where
  "basic_isspace c = (c \<in> set [9, 10, 11, 12, 13, 28, 29, 30, 31, 32, 133, 160])"

definition basic_isword :: "uchar \<Rightarrow> bool" where
  "basic_isword c = ((48 \<le> c \<and> c \<le> 57) \<or> is_AZ c \<or> is_az c \<or> c = 95)"

definition basic_isnumeric :: "uchar \<Rightarrow> bool" where
  "basic_isnumeric c = (48 \<le> c \<and> c \<le> 57)"

definition basic_lower :: "ustring \<Rightarrow> ustring" where
  "basic_lower s = map (\<lambda>c. if is_AZ c then c + 32 else c) s"

definition basic_unicode :: unicode where
  "basic_unicode =
     \<lparr> isspace = basic_isspace, isword = basic_isword,
       isnumeric_char = basic_isnumeric, lower = basic_lower \<rparr>"

text \<open>
  The phrase model of gensim with its default scorer. The vocabulary holds the words and
  the adjacent pairs of the training sentences; an adjacent pair \<open>a b\<close> of the corpus
  is detected when its score
  \<open>(count(a b) - min_count) / count(a) / count(b) * |vocabulary|\<close> is above the
  threshold (so it occurs more often than \<open>min_count\<close>). Applied to a sentence, the
  model goes from left to right and merges a detected pair into one token joined by an
  underscore (95), then goes on after the pair: merged pairs do not overlap.
\<close>

definition pairs :: "ustring list \<Rightarrow> (ustring \<times> ustring) list" where
  "pairs s = zip s (tl s)"

definition phrase_score :: "ustring list list \<Rightarrow> nat \<Rightarrow> ustring \<Rightarrow> ustring \<Rightarrow> rat" where
  "phrase_score sentences min_count a b =
     (let ws = concat sentences; ps = concat (map pairs sentences)
      in (of_nat (count_list ps (a, b)) - of_nat min_count)
           / of_nat (count_list ws a) / of_nat (count_list ws b)
           * of_nat (length (remdups ws) + length (remdups ps)))"

fun merge_phrases :: "(ustring \<Rightarrow> ustring \<Rightarrow> bool) \<Rightarrow> ustring list \<Rightarrow> ustring list" where
  "merge_phrases d (a # b # ws) =
     (if d a b then (a @ [95] @ b) # merge_phrases d ws else a # merge_phrases d (b # ws))"
| "merge_phrases d ws = ws"

definition detected :: "ustring list list \<Rightarrow> nat \<Rightarrow> rat \<Rightarrow> ustring \<Rightarrow> ustring \<Rightarrow> bool" where
  "detected sentences min_count threshold a b =
     ((a, b) \<in> set (concat (map pairs sentences))
      \<and> threshold < phrase_score sentences min_count a b)"

definition gensim_phrases ::
  "ustring list list \<Rightarrow> nat \<Rightarrow> rat \<Rightarrow> ustring list \<Rightarrow> ustring list" where
  "gensim_phrases sentences min_count threshold sentence =
     merge_phrases (detected sentences min_count threshold) sentence"

text \<open>A tagger that splits at blanks and knows a handful of words.\<close>

definition demo_tag :: "ustring \<Rightarrow> ustring" where
  "demo_tag w =
     (if w \<in> set [ascii ''happy'', ascii ''tasty''] then ascii ''ADJ''
      else if w \<in> set [ascii ''quickly''] then ascii ''ADV''
      else if w \<in> set [ascii ''customer'', ascii ''service'', ascii ''coffee'']
      then ascii ''NOUN''
      else if w \<in> set [ascii ''wow''] then ascii ''INTJ''
      else ascii ''X'')"

definition demo_nlp :: nlp where
  "demo_nlp s =
     map (\<lambda>w. \<lparr> tok_text = w, tok_lemma = w, tok_pos = demo_tag w \<rparr>)
       (str_split basic_unicode s)"

text \<open>The languages of NLTK's Snowball stemmer.\<close>

definition nltk_snowball_languages :: "ustring list" where
  "nltk_snowball_languages =
     [ascii ''arabic'', ascii ''danish'', ascii ''dutch'', ascii ''english'',
      ascii ''finnish'', ascii ''french'', ascii ''german'', ascii ''hungarian'',
      ascii ''italian'', ascii ''norwegian'', ascii ''porter'', ascii ''portuguese'',
      ascii ''romanian'', ascii ''russian'', ascii ''spanish'', ascii ''swedish'']"

text \<open>
  Only an English model is installed and no download succeeds; the phrase model is
  gensim's; the stemmer is a stand-in that removes a final \<open>s\<close> (no example below
  reaches it); the random source is a fixed sequence; the product of the sample size and
  a length is exact.
\<close>

definition demo_emoji_sub :: "ustring \<Rightarrow> ustring" where
  "demo_emoji_sub s = filter (\<lambda>c. \<not> (127744 \<le> c \<and> c \<le> 129791)) s"

definition demo_stopwords :: "ustring \<Rightarrow> ustring list" where
  "demo_stopwords l =
     (if l = ascii ''en'' then [ascii ''the'', ascii ''a'', ascii ''is'', ascii ''and'']
      else [])"

definition demo_spacy_load :: "bool \<Rightarrow> ustring \<Rightarrow> error + nlp" where
  "demo_spacy_load downloaded l = (if l = ascii ''en'' then Inr demo_nlp else Inl OSError)"

definition demo_stem :: "ustring \<Rightarrow> ustring \<Rightarrow> ustring" where
  "demo_stem l w = (if 3 < length w \<and> last w = 115 then butlast w else w)"

definition demo_choices :: "nat \<Rightarrow> int \<Rightarrow> nat list" where
  "demo_choices n k = map (\<lambda>j. (7 * j + 3) mod n) [0 ..< nat k]"

definition exact_mul :: "rat \<Rightarrow> nat \<Rightarrow> rat" where
  "exact_mul x n = x * of_nat n"

definition demo_env :: env where
  "demo_env =
     \<lparr> ucd = basic_unicode,
       lem_abbr_dict = [(ascii ''english'', ascii ''en''), (ascii ''french'', ascii ''fr''),
                        (ascii ''german'', ascii ''de'')],
       stem_abbr_dict = [(ascii ''arabic'', ascii ''ar''), (ascii ''finnish'', ascii ''fi''),
                         (ascii ''hungarian'', ascii ''hu''), (ascii ''swedish'', ascii ''sv'')],
       sw_abbr_dict = [(ascii ''afrikaans'', ascii ''af'')],
       emoji_sub = demo_emoji_sub,
       stopwords = demo_stopwords,
       Phrases = gensim_phrases,
       spacy_load = demo_spacy_load,
       snowball_languages = nltk_snowball_languages,
       snowball_stem = demo_stem,
       random_choices = demo_choices,
       float_mul = exact_mul \<rparr>"

text \<open>
  Two batches of token lists for the bigram step. Both end with one response of thirty
  distinct words, which makes the vocabulary large enough for a pair that occurs six
  times to score above 5.
\<close>

definition filler :: "ustring list" where
  "filler = map (\<lambda>c. [c, c]) [97 ..< 123] @ map (\<lambda>c. [c, 120]) [97 ..< 101]"

definition service_corpus :: "ustring list list" where
  "service_corpus = replicate 6 [ascii ''customer'', ascii ''service''] @ [filler]"

definition overlap_corpus :: "ustring list list" where
  "overlap_corpus =
     replicate 6 [ascii ''new'', ascii ''york'', ascii ''city'', ascii ''hall''] @ [filler]"

text \<open>A table row whose only string cells are two of the free-text columns.\<close>

definition demo_row :: "ustring \<Rightarrow> pyval" where
  "demo_row c =
     (if c = ascii ''most_important'' then PyStr (ascii ''tasty coffee'')
      else if c = ascii ''higher_purpose'' then PyStr (ascii ''service'')
      else PyNone)"

section \<open>Notions of the specification\<close>

text \<open>
  Document frequency, in the specification's words: the count of the responses that
  contain a given token at least once.
\<close>

definition document_frequency :: "ustring list list \<Rightarrow> ustring \<Rightarrow> nat" where
  "document_frequency token_lists t = length (filter (\<lambda>tokens. t \<in> set tokens) token_lists)"

text \<open>Python's \<open>round\<close> to an integer: to the nearest, a tie to the even one.\<close>

definition py_round :: "rat \<Rightarrow> int" where
  "py_round x =
     (let f = \<lfloor>x\<rfloor>; d = x - of_int f
      in if d < 1 / 2 then f else if 1 / 2 < d then f + 1 else if even f then f else f + 1)"

text \<open>The tokens of one raw response after stopword removal (steps 1 to 5).\<close>

definition post_stopword_tokens :: "env \<Rightarrow> ustring \<Rightarrow> ustring \<Rightarrow> ustring list" where
  "post_stopword_tokens e input_language r =
     tokenize e (select_stop_words e input_language)
       (emoji_sub e (no_punctuation
          (no_random_punctuation input_language (collapse_spaces 25 r))))"

fun is_str :: "pyval \<Rightarrow> bool" where
  "is_str (PyStr s) = True"
| "is_str v = False"



section \<open>Properties of the Text Normalizer\<close>

lemma takeWhile_dropWhile_same: "takeWhile P (dropWhile P xs) = []"
  by (induction xs) auto

lemma takeWhile_rev_dropWhile_rev:
  assumes "takeWhile P xs = []"
  shows "takeWhile P (rev (dropWhile P (rev xs))) = []"
proof (cases xs)
  case Nil
  then show ?thesis by simp
next
  case (Cons c cs)
  with assms have c: "\<not> P c"
    by (auto split: if_splits)
  have "dropWhile P (rev cs @ [c]) = dropWhile P (rev cs) @ [c]
      \<or> dropWhile P (rev cs @ [c]) = [c]"
    using c by (simp add: dropWhile_append)
  then show ?thesis
    using c Cons by auto
qed

lemma takeWhile_str_strip: "takeWhile (isspace u) (str_strip u s) = []"
  unfolding str_strip_def
  by (rule takeWhile_rev_dropWhile_rev) (rule takeWhile_dropWhile_same)

lemma takeWhile_rev_str_strip: "takeWhile (isspace u) (rev (str_strip u s)) = []"
  unfolding str_strip_def by (simp add: takeWhile_dropWhile_same)

text \<open>
  C4. The Text Normalizer is a total function from strings to strings (it has no error
  result, and each substitution is a terminating recursion), and for every input string,
  the empty one included, its result has no leading and no trailing white space: the
  longest white-space prefix of the result and of its reversal is empty.
\<close>

theorem clean_text_strings_stripped:
  "takeWhile (isspace u) (clean_text_strings u s) = []
   \<and> takeWhile (isspace u) (rev (clean_text_strings u s)) = []"
  unfolding clean_text_strings_def Let_def
  using takeWhile_str_strip takeWhile_rev_str_strip by blast

theorem clean_text_strings_stripped_witness:
  "clean_text_strings basic_unicode (ascii ''  goodMovie '') = ascii ''good. movie''
   \<and> takeWhile (isspace basic_unicode) (ascii ''good. movie'') = []
   \<and> takeWhile (isspace basic_unicode) (rev (ascii ''good. movie'')) = []"
proof -
  have e: "clean_text_strings basic_unicode (ascii ''  goodMovie '') = ascii ''good. movie''"
    by code_simp
  from clean_text_strings_stripped [of basic_unicode "ascii ''  goodMovie ''"] e
  show ?thesis by simp
qed

section \<open>Auxiliary facts about the list operations\<close>

lemma mapM_length: "mapM f xs = Inr ys \<Longrightarrow> length ys = length xs"
proof (induction xs arbitrary: ys)
  case Nil
  then show ?case by simp
next
  case (Cons a xs)
  from Cons.prems obtain y ys' where "mapM f xs = Inr ys'" "ys = y # ys'"
    by (simp split: sum.splits) blast
  with Cons.IH show ?case by simp
qed

lemma mapM_Inr_map: "(\<And>x. x \<in> set xs \<Longrightarrow> f x = Inr (g x)) \<Longrightarrow> mapM f xs = Inr (map g xs)"
  by (induction xs) simp_all

lemma mapM_py_index:
  "(\<And>i. i \<in> set js \<Longrightarrow> i < length xs) \<Longrightarrow> mapM (py_index xs) js = Inr (map (\<lambda>i. xs ! i) js)"
  by (rule mapM_Inr_map) (simp add: py_index_def)

lemma mapM_no_large_spaces_TypeError:
  "\<exists>r\<in>set rs. \<not> is_str r \<Longrightarrow> mapM no_large_spaces rs = Inl TypeError"
proof (induction rs)
  case Nil
  then show ?case by simp
next
  case (Cons r rs)
  show ?case
  proof (cases r)
    case (PyStr s)
    with Cons.prems have "\<exists>r\<in>set rs. \<not> is_str r" by simp
    from Cons.IH [OF this] PyStr show ?thesis by simp
  next
    case PyNone
    then show ?thesis by simp
  next
    case (PyInt n)
    then show ?thesis by simp
  qed
qed

lemma foldl_insert_front:
  "foldl (\<lambda>toks token. if P token then token # toks else toks) acc ps = rev (filter P ps) @ acc"
  by (induction ps arbitrary: acc) auto

lemma foldl_bump_distinct:
  "distinct xs \<Longrightarrow>
     foldl (\<lambda>f t. f(t := f t + 1)) f xs t = f t + (if t \<in> set xs then 1 else (0::nat))"
  by (induction xs arbitrary: f) auto

lemma count_tokens_apply:
  "count_tokens f tokens t = f t + (if t \<in> set tokens then 1 else 0)"
  unfolding count_tokens_def using foldl_bump_distinct [of "remdups tokens" f t] by simp

lemma foldl_count_tokens:
  "foldl count_tokens f ls t = f t + length (filter (\<lambda>tokens. t \<in> set tokens) ls)"
  by (induction ls arbitrary: f) (auto simp: count_tokens_apply)

lemma token_frequencies_eq:
  "token_frequencies ls t = document_frequency ls t"
  by (simp add: token_frequencies_def document_frequency_def foldl_count_tokens)

lemma insert_bigrams_eq:
  "insert_bigrams phrased tokens = rev (filter (\<lambda>token. 95 \<in> set token) phrased) @ tokens"
  unfolding insert_bigrams_def by (rule foldl_insert_front)

lemma sample_lengths:
  assumes "sample e sample_size p = Inr (tc, ct, si)"
  shows "length tc = length si" and "length ct = length si"
  using assms by (auto simp: sample_def Let_def split: prod.splits sum.splits dest: mapM_length)

section \<open>Facts about the stages of the pipeline\<close>

















lemma surviving_lengths:
  assumes "surviving e responses lang mf mwl = Inr (tc, ct)"
  shows "length ct = length tc"
  using assms unfolding surviving_def Let_def
  by (auto split: sum.splits dest: mapM_length)

lemma sample_all:
  assumes "length ct = length tc"
  shows "sample e 1 (tc, ct) = Inr (tc, ct, [0 ..< length tc])"
proof -
  have a: "mapM (py_index tc) [0 ..< length tc] = Inr (map (\<lambda>i. tc ! i) [0 ..< length tc])"
    by (rule mapM_py_index) simp
  have b: "mapM (py_index ct) [0 ..< length tc] = Inr (map (\<lambda>i. ct ! i) [0 ..< length tc])"
    by (rule mapM_py_index) (simp add: assms)
  have c: "map (\<lambda>i. tc ! i) [0 ..< length tc] = tc" by (rule map_nth)
  have d: "map (\<lambda>i. ct ! i) [0 ..< length tc] = ct"
    using map_nth [of ct] assms by simp
  show ?thesis
    by (simp add: sample_def select_idxs_def Let_def a b c d)
qed

lemma sample_choices:
  assumes "length ct = length tc" and "sample_size \<noteq> 1"
      and "\<forall>i\<in>set (random_choices e (length tc) (py_int (float_mul e sample_size (length tc)))).
             i < length tc"
  shows "sample e sample_size (tc, ct)
       = Inr (map (\<lambda>i. tc ! i)
                (random_choices e (length tc) (py_int (float_mul e sample_size (length tc)))),
              map (\<lambda>i. ct ! i)
                (random_choices e (length tc) (py_int (float_mul e sample_size (length tc)))),
              random_choices e (length tc) (py_int (float_mul e sample_size (length tc))))"
proof -
  let ?si = "random_choices e (length tc) (py_int (float_mul e sample_size (length tc)))"
  have a: "mapM (py_index tc) ?si = Inr (map (\<lambda>i. tc ! i) ?si)"
    by (rule mapM_py_index) (use assms(3) in simp)
  have b: "mapM (py_index ct) ?si = Inr (map (\<lambda>i. ct ! i) ?si)"
    by (rule mapM_py_index) (use assms(1,3) in simp)
  show ?thesis
    using assms(2) by (simp add: sample_def select_idxs_def Let_def a b)
qed

lemma nat_py_int: "nat (py_int x) = nat \<lfloor>x\<rfloor>"
proof (cases "0 \<le> x")
  case True
  then show ?thesis by (simp add: py_int_def)
next
  case False
  then have "\<lceil>x\<rceil> \<le> 0" and "\<lfloor>x\<rfloor> \<le> 0"
    by (simp_all add: ceiling_le_iff floor_le_iff)
  with False show ?thesis by (simp add: py_int_def)
qed

lemma select_stemmer_fi:
  assumes "ascii ''fi'' \<notin> set (snowball_languages e)"
      and "ascii ''finish'' \<notin> set (snowball_languages e)"
  shows "select_stemmer e (ascii ''fi'') = Inl ValueError"
proof -
  have "ascii ''fi'' \<noteq> ascii ''ar''" by (simp add: ascii_def)
  with assms show ?thesis
    by (simp add: select_stemmer_def SnowballStemmer_def)
qed






lemma row_text_foldl:
  "foldl (\<lambda>text c. case row c of PyStr v \<Rightarrow> text @ sep @ v | _ \<Rightarrow> text) acc cols
   = foldl (\<lambda>text c. case row c of PyStr v \<Rightarrow> text @ sep @ v | _ \<Rightarrow> text) acc
       (filter (\<lambda>c. is_str (row c)) cols)"
proof (induction cols arbitrary: acc)
  case Nil
  then show ?case by simp
next
  case (Cons c cols)
  then show ?case by (cases "row c") simp_all
qed



lemma merge_phrases_first:
  assumes "list_all (\<lambda>(x, y). \<not> d x y) (pairs (pre @ [a]))" and "d a b"
  shows "merge_phrases d (pre @ a # b # rest) = pre @ (a @ [95] @ b) # merge_phrases d rest"
  using assms(1)
proof (induction pre rule: induct_list012)
  case 1
  with assms(2) show ?case by simp
next
  case (2 x)
  with assms(2) show ?case by (simp add: pairs_def)
next
  case (3 x y zs)
  from 3(3) have xy: "\<not> d x y" and tl: "list_all (\<lambda>(x, y). \<not> d x y) (pairs ((y # zs) @ [a]))"
    by (simp_all add: pairs_def)
  from 3(2) [OF tl] xy show ?case by simp
qed

section \<open>Alignment of the clean texts with the original responses\<close>

text \<open>
  C1. The claim: the clean text paired with a surviving response is the Text Normalizer's
  output for that response's own raw string, also when earlier responses became empty at
  the stopword step. The code drops the empty token lists before the bigram step without
  keeping their positions, and later indexes the original \<open>responses\<close> with positions
  of the shortened list. With an empty first response and two responses
  \<open>tasty coffee\<close> (default minimum frequency 2 and length 4, no sampling) both
  surviving token lists come from the second and third response, whose normalized text
  is \<open>tasty coffee\<close>, but the first clean text returned is that of the dropped
  first response, the empty string.
\<close>

theorem clean_texts_misaligned:
  "clean_and_tokenize_texts demo_env
       (Many [PyStr [], PyStr (ascii ''tasty coffee''), PyStr (ascii ''tasty coffee'')])
       (ascii ''english'') (MinInt 2) (MinInt 4) 1
     = Inr ([[ascii ''tasty'', ascii ''coffee''], [ascii ''tasty'', ascii ''coffee'']],
            [[], ascii ''tasty coffee''], [0, 1])
   \<and> clean_text_strings (ucd demo_env) (ascii ''tasty coffee'') = ascii ''tasty coffee''
   \<and> post_stopword_tokens demo_env (ascii ''en'') [] = []"
  by code_simp

section \<open>Equal lengths of the three results\<close>

text \<open>
  C2. Whenever \<open>clean_and_tokenize_texts\<close> returns, for any responses, language,
  minimum frequency, minimum word length and sample size, its three results
  \<open>text_corpus\<close>, \<open>clean_texts\<close> and \<open>selected_idxs\<close> have the same length.
  And it does return: when the stages before the sampling have produced their token lists
  and clean texts, the call without sampling returns exactly these with the indices
  \<open>0, ..., n - 1\<close>.
\<close>

theorem result_lengths_equal:
  "(clean_and_tokenize_texts e responses input_language min_freq min_word_len sample_size
        = Inr (text_corpus, clean_texts, selected_idxs) \<longrightarrow>
      length text_corpus = length clean_texts \<and> length clean_texts = length selected_idxs)
   \<and> (surviving e responses input_language min_freq min_word_len = Inr (tc, ct) \<longrightarrow>
        clean_and_tokenize_texts e responses input_language min_freq min_word_len 1
          = Inr (tc, ct, [0 ..< length tc])
        \<and> length tc = length ct)"
proof (intro conjI impI)
  assume "clean_and_tokenize_texts e responses input_language min_freq min_word_len sample_size
        = Inr (text_corpus, clean_texts, selected_idxs)"
  then obtain p where "sample e sample_size p = Inr (text_corpus, clean_texts, selected_idxs)"
    by (auto simp: clean_and_tokenize_texts_def split: sum.splits)
  from sample_lengths [OF this]
  show "length text_corpus = length clean_texts" "length clean_texts = length selected_idxs"
    by simp_all
next
  assume s: "surviving e responses input_language min_freq min_word_len = Inr (tc, ct)"
  then have len: "length ct = length tc" by (rule surviving_lengths)
  then show "length tc = length ct" by simp
  from s sample_all [OF len, of e]
  show "clean_and_tokenize_texts e responses input_language min_freq min_word_len 1
          = Inr (tc, ct, [0 ..< length tc])"
    by (simp add: clean_and_tokenize_texts_def)
qed

text \<open>
  C2 at a concrete batch of three responses in English.
\<close>

theorem result_lengths_equal_witness:
  "length [[ascii ''tasty'', ascii ''coffee''], [ascii ''tasty'', ascii ''coffee'']]
       = length [[], ascii ''tasty coffee'']
   \<and> length [[], ascii ''tasty coffee''] = length [0, 1 :: nat]
   \<and> clean_and_tokenize_texts demo_env
       (Many [PyStr [], PyStr (ascii ''tasty coffee''), PyStr (ascii ''tasty coffee'')])
       (ascii ''english'') (MinInt 2) (MinInt 4) 1
     = Inr ([[ascii ''tasty'', ascii ''coffee''], [ascii ''tasty'', ascii ''coffee'']],
            [[], ascii ''tasty coffee''],
            [0 ..< length [[ascii ''tasty'', ascii ''coffee''], [ascii ''tasty'', ascii ''coffee'']]])"
proof -
  let ?rs = "Many [PyStr [], PyStr (ascii ''tasty coffee''), PyStr (ascii ''tasty coffee'')]"
  let ?tc = "[[ascii ''tasty'', ascii ''coffee''], [ascii ''tasty'', ascii ''coffee'']]"
  let ?ct = "[[], ascii ''tasty coffee'']"
  have run: "clean_and_tokenize_texts demo_env ?rs (ascii ''english'') (MinInt 2) (MinInt 4) 1
               = Inr (?tc, ?ct, [0, 1])"
    by code_simp
  have surv: "surviving demo_env ?rs (ascii ''english'') (MinInt 2) (MinInt 4) = Inr (?tc, ?ct)"
    by code_simp
  note inst = result_lengths_equal [of demo_env ?rs "ascii ''english''" "MinInt 2" "MinInt 4" 1
      ?tc ?ct "[0, 1]" ?tc ?ct]
  from inst run have "length ?tc = length ?ct \<and> length ?ct = length [0, 1 :: nat]"
    by blast
  moreover from inst surv
  have "clean_and_tokenize_texts demo_env ?rs (ascii ''english'') (MinInt 2) (MinInt 4) 1
          = Inr (?tc, ?ct, [0 ..< length ?tc])"
    by blast
  ultimately show ?thesis by blast
qed

section \<open>The stemmer for the abbreviation fi\<close>

text \<open>
  C3. The claim: no language name makes the call raise, the abbreviations \<open>ar\<close>,
  \<open>fi\<close>, \<open>hu\<close>, \<open>sv\<close> being mapped to the stemmer's language names. For
  \<open>fi\<close> the code asks for the stemmer of \<open>finish\<close>, which is not one of the
  stemmer's languages (\<open>finnish\<close> is), so with no spaCy model for \<open>fi\<close> the
  constructor's \<open>ValueError\<close> leaves the call.
\<close>

theorem finnish_abbreviation_raises:
  "clean_and_tokenize_texts demo_env (Many [PyStr (ascii ''tasty coffee'')])
       (ascii ''fi'') (MinInt 2) (MinInt 4) 1 = Inl ValueError
   \<and> ascii ''finish'' \<notin> set nltk_snowball_languages
   \<and> ascii ''finnish'' \<in> set nltk_snowball_languages"
  by code_simp

section \<open>Survival of the responses without minimum frequency and length\<close>




section \<open>The number of sampled indices\<close>

text \<open>
  C6, as stated, fails in the number of draws: the code draws
  \<open>int(sample_size * N)\<close> indices, the product truncated, not rounded. With two
  surviving responses and sample size 0.75 the product is 1.5, which rounds to 2, and
  one index is drawn.
\<close>

theorem sample_size_truncated:
  "surviving demo_env
       (Many [PyStr [], PyStr (ascii ''tasty coffee''), PyStr (ascii ''tasty coffee'')])
       (ascii ''english'') (MinInt 2) (MinInt 4)
     = Inr ([[ascii ''tasty'', ascii ''coffee''], [ascii ''tasty'', ascii ''coffee'']],
            [[], ascii ''tasty coffee''])
   \<and> clean_and_tokenize_texts demo_env
       (Many [PyStr [], PyStr (ascii ''tasty coffee''), PyStr (ascii ''tasty coffee'')])
       (ascii ''english'') (MinInt 2) (MinInt 4) (3 / 4)
     = Inr ([[ascii ''tasty'', ascii ''coffee'']], [ascii ''tasty coffee''], [1])
   \<and> float_mul demo_env (3 / 4) 2 = 3 / 2
   \<and> py_round (3 / 2) = 2"
  by code_simp

text \<open>
  C6, amended. Let \<open>n\<close> be the number of surviving responses. With sample size 1 the
  selected indices are \<open>0, ..., n - 1\<close> in ascending order, and the corpus and the
  clean texts are returned as they are. With another sample size the indices are those
  that \<open>random.choices\<close> draws from \<open>range(n)\<close> when asked for
  \<open>int(sample_size * n)\<close> of them, the product truncated toward zero; when the drawn
  list has that length (none for a negative number) and its members are below \<open>n\<close>,
  as the library promises, the call returns the entries at the drawn positions, in the
  order drawn, and the number of drawn indices is the floor of the product (0 if
  negative). Duplicates and more than \<open>n\<close> indices are possible. (That the draws are
  uniform is a property of the library's random source.)
\<close>

theorem selected_idxs_truncated:
  assumes surv: "surviving e responses input_language min_freq min_word_len
                   = Inr (text_corpus, clean_texts)"
  shows
    "let n = length text_corpus;
         x = float_mul e sample_size n;
         drawn = random_choices e n (if 0 \<le> x then \<lfloor>x\<rfloor> else \<lceil>x\<rceil>)
     in (sample_size = 1 \<longrightarrow>
           clean_and_tokenize_texts e responses input_language min_freq min_word_len sample_size
             = Inr (text_corpus, clean_texts, [0 ..< n]))
      \<and> (sample_size \<noteq> 1
            \<and> length drawn = nat (if 0 \<le> x then \<lfloor>x\<rfloor> else \<lceil>x\<rceil>)
            \<and> (\<forall>i\<in>set drawn. i < n) \<longrightarrow>
           clean_and_tokenize_texts e responses input_language min_freq min_word_len sample_size
             = Inr (map (\<lambda>i. text_corpus ! i) drawn, map (\<lambda>i. clean_texts ! i) drawn, drawn)
           \<and> length drawn = nat \<lfloor>x\<rfloor>)"
proof -
  have len: "length clean_texts = length text_corpus"
    using surv by (rule surviving_lengths)
  have run: "clean_and_tokenize_texts e responses input_language min_freq min_word_len
               sample_size = sample e sample_size (text_corpus, clean_texts)"
    by (simp add: clean_and_tokenize_texts_def surv)
  let ?x = "float_mul e sample_size (length text_corpus)"
  let ?drawn = "random_choices e (length text_corpus) (py_int ?x)"
  have one: "sample_size = 1 \<Longrightarrow>
      clean_and_tokenize_texts e responses input_language min_freq min_word_len sample_size
        = Inr (text_corpus, clean_texts, [0 ..< length text_corpus])"
    using run sample_all [OF len, of e] by simp
  have other: "clean_and_tokenize_texts e responses input_language min_freq min_word_len
                 sample_size
        = Inr (map (\<lambda>i. text_corpus ! i) ?drawn, map (\<lambda>i. clean_texts ! i) ?drawn, ?drawn)"
    if "sample_size \<noteq> 1" and "\<forall>i\<in>set ?drawn. i < length text_corpus"
    using run sample_choices [OF len that] by simp
  have cnt: "length ?drawn = nat \<lfloor>?x\<rfloor>" if "length ?drawn = nat (py_int ?x)"
    using that by (simp only: nat_py_int)
  have pi: "(if 0 \<le> ?x then \<lfloor>?x\<rfloor> else \<lceil>?x\<rceil>) = py_int ?x"
    by (simp add: py_int_def)
  show ?thesis
    unfolding Let_def pi using one other cnt by blast
qed

text \<open>
  C6, amended, at two surviving responses: sample size 1.75 gives three indices (the
  product is 3.5), more than the two responses and with a duplicate; sample size 1 gives
  \<open>[0, 1]\<close>.
\<close>

theorem selected_idxs_truncated_witness:
  "clean_and_tokenize_texts demo_env
       (Many [PyStr [], PyStr (ascii ''tasty coffee''), PyStr (ascii ''tasty coffee'')])
       (ascii ''english'') (MinInt 2) (MinInt 4) (7 / 4)
     = Inr ([[ascii ''tasty'', ascii ''coffee''], [ascii ''tasty'', ascii ''coffee''],
             [ascii ''tasty'', ascii ''coffee'']],
            [ascii ''tasty coffee'', [], ascii ''tasty coffee''],
            [1, 0, 1])
   \<and> float_mul demo_env (7 / 4) 2 = 7 / 2
   \<and> clean_and_tokenize_texts demo_env
       (Many [PyStr [], PyStr (ascii ''tasty coffee''), PyStr (ascii ''tasty coffee'')])
       (ascii ''english'') (MinInt 2) (MinInt 4) 1
     = Inr ([[ascii ''tasty'', ascii ''coffee''], [ascii ''tasty'', ascii ''coffee'']],
            [[], ascii ''tasty coffee''], [0, 1])"
proof -
  let ?rs = "Many [PyStr [], PyStr (ascii ''tasty coffee''), PyStr (ascii ''tasty coffee'')]"
  let ?tc = "[[ascii ''tasty'', ascii ''coffee''], [ascii ''tasty'', ascii ''coffee'']]"
  let ?ct = "[[], ascii ''tasty coffee'']"
  let ?x = "float_mul demo_env (7 / 4) (length ?tc)"
  let ?drawn = "random_choices demo_env (length ?tc) (if 0 \<le> ?x then \<lfloor>?x\<rfloor> else \<lceil>?x\<rceil>)"
  have surv: "surviving demo_env ?rs (ascii ''english'') (MinInt 2) (MinInt 4) = Inr (?tc, ?ct)"
    by code_simp
  have hyp: "(7 / 4 :: rat) \<noteq> 1
            \<and> length ?drawn = nat (if 0 \<le> ?x then \<lfloor>?x\<rfloor> else \<lceil>?x\<rceil>)
            \<and> (\<forall>i\<in>set ?drawn. i < length ?tc)"
    by code_simp
  have d: "?drawn = [1, 0, 1]"
    by code_simp
  have m1: "map (\<lambda>i. ?tc ! i) [1, 0, 1]
           = [[ascii ''tasty'', ascii ''coffee''], [ascii ''tasty'', ascii ''coffee''],
              [ascii ''tasty'', ascii ''coffee'']]"
    by simp
  have m2: "map (\<lambda>i. ?ct ! i) [1, 0, 1] = [ascii ''tasty coffee'', [], ascii ''tasty coffee'']"
    by simp
  have x: "float_mul demo_env (7 / 4) 2 = 7 / 2"
    by code_simp
  have u: "[0 ..< length ?tc] = [0, 1]"
    by code_simp
  note inst = selected_idxs_truncated [OF surv, unfolded Let_def]
  from inst [of "7 / 4"] hyp
  have "clean_and_tokenize_texts demo_env ?rs (ascii ''english'') (MinInt 2) (MinInt 4) (7 / 4)
          = Inr (map (\<lambda>i. ?tc ! i) ?drawn, map (\<lambda>i. ?ct ! i) ?drawn, ?drawn)"
    by blast
  then have a: "clean_and_tokenize_texts demo_env ?rs (ascii ''english'') (MinInt 2) (MinInt 4)
        (7 / 4)
     = Inr ([[ascii ''tasty'', ascii ''coffee''], [ascii ''tasty'', ascii ''coffee''],
             [ascii ''tasty'', ascii ''coffee'']],
            [ascii ''tasty coffee'', [], ascii ''tasty coffee''], [1, 0, 1])"
    by (simp only: d m1 m2)
  from inst [of 1]
  have "clean_and_tokenize_texts demo_env ?rs (ascii ''english'') (MinInt 2) (MinInt 4) 1
          = Inr (?tc, ?ct, [0 ..< length ?tc])"
    by blast
  then have b: "clean_and_tokenize_texts demo_env ?rs (ascii ''english'') (MinInt 2) (MinInt 4) 1
          = Inr (?tc, ?ct, [0, 1])"
    by (simp only: u)
  from a x b show ?thesis by blast
qed

section \<open>The frequency and length filter\<close>

text \<open>
  C7. The frequency table built by the loop over \<open>set(tokens)\<close> gives every token its
  document frequency, the number of responses (token lists) that contain it at least
  once, not the number of its occurrences. With integer minima \<open>f\<close> and \<open>l\<close> the
  filter keeps a token of a response exactly when its length is at least \<open>l\<close> and
  its document frequency is at least \<open>f\<close>. \<open>None\<close> and \<open>False\<close> behave as the
  minimum 0 (and \<open>True\<close> as 1), for either parameter. In the pipeline the filter
  runs on \<open>lemmatized_tokens\<close>, the lemmatized or stemmed token lists.
\<close>

theorem min_len_freq_document_frequency:
  "token_frequencies lemmatized_tokens t = document_frequency lemmatized_tokens t
   \<and> min_len_freq (MinInt f) (MinInt l) lemmatized_tokens =
       map (filter (\<lambda>t. l \<le> int (length t)
                          \<and> f \<le> int (document_frequency lemmatized_tokens t)))
         lemmatized_tokens
   \<and> min_len_freq MinNone min_word_len lemmatized_tokens
       = min_len_freq (MinInt 0) min_word_len lemmatized_tokens
   \<and> min_len_freq (MinBool False) min_word_len lemmatized_tokens
       = min_len_freq (MinInt 0) min_word_len lemmatized_tokens
   \<and> min_len_freq (MinBool True) min_word_len lemmatized_tokens
       = min_len_freq (MinInt 1) min_word_len lemmatized_tokens
   \<and> min_len_freq min_freq MinNone lemmatized_tokens
       = min_len_freq min_freq (MinInt 0) lemmatized_tokens
   \<and> min_len_freq min_freq (MinBool False) lemmatized_tokens
       = min_len_freq min_freq (MinInt 0) lemmatized_tokens
   \<and> min_len_freq min_freq (MinBool True) lemmatized_tokens
       = min_len_freq min_freq (MinInt 1) lemmatized_tokens"
proof -
  have "token_frequencies lemmatized_tokens = document_frequency lemmatized_tokens"
    by (rule ext) (rule token_frequencies_eq)
  then show ?thesis
    by (simp add: min_len_freq_def token_frequencies_eq)
qed

text \<open>
  C7 at two responses and both minima 2: \<open>bb\<close> occurs twice but in one response only
  and is dropped by the frequency test alone, \<open>c\<close> is in both responses and is
  dropped by the length test alone, \<open>aaaa\<close> passes both.
\<close>

theorem min_len_freq_document_frequency_witness:
  "token_frequencies
       [[ascii ''bb'', ascii ''bb'', ascii ''aaaa'', ascii ''c''], [ascii ''aaaa'', ascii ''c'']]
       (ascii ''bb'') = 1
   \<and> token_frequencies
       [[ascii ''bb'', ascii ''bb'', ascii ''aaaa'', ascii ''c''], [ascii ''aaaa'', ascii ''c'']]
       (ascii ''c'') = 2
   \<and> min_len_freq (MinInt 2) (MinInt 2)
       [[ascii ''bb'', ascii ''bb'', ascii ''aaaa'', ascii ''c''], [ascii ''aaaa'', ascii ''c'']]
     = [[ascii ''aaaa''], [ascii ''aaaa'']]"
proof -
  let ?ls = "[[ascii ''bb'', ascii ''bb'', ascii ''aaaa'', ascii ''c''],
              [ascii ''aaaa'', ascii ''c'']]"
  have a: "document_frequency ?ls (ascii ''bb'') = 1"
    by code_simp
  have b: "document_frequency ?ls (ascii ''c'') = 2"
    by code_simp
  have c: "map (filter (\<lambda>t. 2 \<le> int (length t) \<and> 2 \<le> int (document_frequency ?ls t))) ?ls
           = [[ascii ''aaaa''], [ascii ''aaaa'']]"
    by code_simp
  from min_len_freq_document_frequency [of ?ls "ascii ''bb''" 2 2]
  have "token_frequencies ?ls (ascii ''bb'') = document_frequency ?ls (ascii ''bb'')"
    and "min_len_freq (MinInt 2) (MinInt 2) ?ls =
       map (filter (\<lambda>t. 2 \<le> int (length t) \<and> 2 \<le> int (document_frequency ?ls t))) ?ls"
    by blast+
  moreover from min_len_freq_document_frequency [of ?ls "ascii ''c''" 2 2]
  have "token_frequencies ?ls (ascii ''c'') = document_frequency ?ls (ascii ''c'')"
    by blast
  ultimately show ?thesis using a b c by (simp only:)
qed

section \<open>The bigram step\<close>

lemma add_bigrams_nth:
  "i < length tts \<Longrightarrow>
     add_bigrams e tts ! i = insert_bigrams (Phrases e tts 3 5 (tts ! i)) (tts ! i)"
  by (simp add: add_bigrams_def Let_def)

text \<open>
  C8, as stated, fails for detected pairs that overlap: the phrase model merges detected
  pairs from left to right and goes on after a merged pair. In a batch where the
  response \<open>new york city hall\<close> occurs six times, the adjacent pair
  \<open>york city\<close> is detected (it occurs 6 times and scores 5.5, above 5.0), but in the
  response the model merges \<open>new york\<close> and then \<open>city hall\<close>, and no token
  \<open>york_city\<close> is inserted.
\<close>

theorem overlapping_bigram_not_inserted:
  "overlap_corpus ! 0 = [ascii ''new'', ascii ''york'', ascii ''city'', ascii ''hall'']
   \<and> count_list (concat (map pairs overlap_corpus)) (ascii ''york'', ascii ''city'') = 6
   \<and> phrase_score overlap_corpus 3 (ascii ''york'') (ascii ''city'') = 11 / 2
   \<and> detected overlap_corpus 3 5 (ascii ''york'') (ascii ''city'')
   \<and> add_bigrams demo_env overlap_corpus ! 0
       = [ascii ''city_hall'', ascii ''new_york'',
          ascii ''new'', ascii ''york'', ascii ''city'', ascii ''hall'']"
proof -
  have r0: "overlap_corpus ! 0 = [ascii ''new'', ascii ''york'', ascii ''city'', ascii ''hall'']"
    by code_simp
  have len: "0 < length overlap_corpus"
    by (simp add: overlap_corpus_def)
  have cnt: "count_list (concat (map pairs overlap_corpus)) (ascii ''york'', ascii ''city'') = 6"
    by code_simp
  have sc: "phrase_score overlap_corpus 3 (ascii ''york'') (ascii ''city'') = 11 / 2"
    by code_simp
  have mem: "(ascii ''york'', ascii ''city'') \<in> set (concat (map pairs overlap_corpus))"
    by code_simp
  have det: "detected overlap_corpus 3 5 (ascii ''york'') (ascii ''city'')"
    using mem by (simp add: detected_def sc)
  have ph: "Phrases demo_env = gensim_phrases"
    by (simp add: demo_env_def)
  have ev: "insert_bigrams
              (gensim_phrases overlap_corpus 3 5
                 [ascii ''new'', ascii ''york'', ascii ''city'', ascii ''hall''])
              [ascii ''new'', ascii ''york'', ascii ''city'', ascii ''hall'']
            = [ascii ''city_hall'', ascii ''new_york'',
               ascii ''new'', ascii ''york'', ascii ''city'', ascii ''hall'']"
    by code_simp
  have "add_bigrams demo_env overlap_corpus ! 0
       = [ascii ''city_hall'', ascii ''new_york'',
          ascii ''new'', ascii ''york'', ascii ''city'', ascii ''hall'']"
    using add_bigrams_nth [OF len, of demo_env] by (simp only: r0 ph ev)
  with r0 cnt sc det show ?thesis by blast
qed

text \<open>
  C8, amended. The phrase model is gensim's, trained on the whole batch with minimum
  count 3 and threshold 5.0. For every response, the bigrams that the model merges in
  it (the detected adjacent pairs taken from left to right without overlap, each joined
  by an underscore) are inserted at the front of the response's token list, ahead of the
  response's own tokens, which all stay in place: the constituent words of a bigram
  remain present. In particular the leftmost detected pair of a response (a detected
  pair \<open>a b\<close> with no detected pair before it) is always merged and its token
  \<open>a_b\<close> stands in the part inserted before the response's own tokens. (Each
  bigram is inserted at index 0, so several bigrams of one response stand in the reverse
  of their order in the response.)
\<close>

theorem add_bigrams_detected:
  assumes "Phrases e = gensim_phrases"
  shows "add_bigrams e tokenized_texts =
           map (\<lambda>tokens.
                 rev (filter (\<lambda>token. 95 \<in> set token)
                        (merge_phrases (detected tokenized_texts 3 5) tokens)) @ tokens)
             tokenized_texts
         \<and> (i < length tokenized_texts
              \<and> tokenized_texts ! i = pre @ a # b # rest
              \<and> list_all (\<lambda>(x, y). \<not> detected tokenized_texts 3 5 x y) (pairs (pre @ [a]))
              \<and> detected tokenized_texts 3 5 a b \<longrightarrow>
            (\<exists>front. add_bigrams e tokenized_texts ! i = front @ pre @ a # b # rest
                      \<and> a @ [95] @ b \<in> set front))"
proof (intro conjI impI)
  have "Phrases e tokenized_texts 3 5 = merge_phrases (detected tokenized_texts 3 5)"
    using assms by (intro ext) (simp add: gensim_phrases_def)
  then show eq: "add_bigrams e tokenized_texts =
           map (\<lambda>tokens.
                 rev (filter (\<lambda>token. 95 \<in> set token)
                        (merge_phrases (detected tokenized_texts 3 5) tokens)) @ tokens)
             tokenized_texts"
    by (simp add: add_bigrams_def Let_def insert_bigrams_eq)
  assume h: "i < length tokenized_texts
              \<and> tokenized_texts ! i = pre @ a # b # rest
              \<and> list_all (\<lambda>(x, y). \<not> detected tokenized_texts 3 5 x y) (pairs (pre @ [a]))
              \<and> detected tokenized_texts 3 5 a b"
  let ?front = "rev (filter (\<lambda>token. 95 \<in> set token)
                  (merge_phrases (detected tokenized_texts 3 5) (pre @ a # b # rest)))"
  from h have "merge_phrases (detected tokenized_texts 3 5) (pre @ a # b # rest)
      = pre @ (a @ [95] @ b) # merge_phrases (detected tokenized_texts 3 5) rest"
    using merge_phrases_first by blast
  then have m: "a @ [95] @ b \<in> set ?front"
    by simp
  from h eq have "add_bigrams e tokenized_texts ! i = ?front @ pre @ a # b # rest"
    by simp
  with m show "\<exists>front. add_bigrams e tokenized_texts ! i = front @ pre @ a # b # rest
                      \<and> a @ [95] @ b \<in> set front"
    by blast
qed

text \<open>
  C8, amended, at a batch in which \<open>customer service\<close> occurs six times and scores
  above 5: \<open>customer_service\<close> is put before \<open>customer\<close> and \<open>service\<close>.
\<close>

theorem add_bigrams_detected_witness:
  "service_corpus ! 0 = [ascii ''customer'', ascii ''service'']
   \<and> count_list (concat (map pairs service_corpus)) (ascii ''customer'', ascii ''service'') = 6
   \<and> phrase_score service_corpus 3 (ascii ''customer'') (ascii ''service'') = 31 / 6
   \<and> add_bigrams demo_env service_corpus ! 0
       = [ascii ''customer_service'', ascii ''customer'', ascii ''service'']
   \<and> (\<exists>front. add_bigrams demo_env service_corpus ! 0
                 = front @ [ascii ''customer'', ascii ''service'']
               \<and> ascii ''customer_service'' \<in> set front)"
proof -
  let ?F = "\<lambda>tokens. rev (filter (\<lambda>token. 95 \<in> set token)
                        (merge_phrases (detected service_corpus 3 5) tokens)) @ tokens"
  have g: "Phrases demo_env = gensim_phrases"
    by (simp add: demo_env_def)
  have r0: "service_corpus ! 0 = [ascii ''customer'', ascii ''service'']"
    by code_simp
  have len: "0 < length service_corpus"
    by (simp add: service_corpus_def)
  have cnt: "count_list (concat (map pairs service_corpus))
               (ascii ''customer'', ascii ''service'') = 6"
    by code_simp
  have sc: "phrase_score service_corpus 3 (ascii ''customer'') (ascii ''service'') = 31 / 6"
    by code_simp
  have mem: "(ascii ''customer'', ascii ''service'') \<in> set (concat (map pairs service_corpus))"
    by code_simp
  have det: "detected service_corpus 3 5 (ascii ''customer'') (ascii ''service'')"
    using mem by (simp add: detected_def sc)
  have hyp: "0 < length service_corpus
             \<and> service_corpus ! 0 = [] @ ascii ''customer'' # ascii ''service'' # []
             \<and> list_all (\<lambda>(x, y). \<not> detected service_corpus 3 5 x y)
                  (pairs ([] @ [ascii ''customer'']))
             \<and> detected service_corpus 3 5 (ascii ''customer'') (ascii ''service'')"
    using det len r0 by (simp add: pairs_def)
  have ev: "?F [ascii ''customer'', ascii ''service'']
           = [ascii ''customer_service'', ascii ''customer'', ascii ''service'']"
    by code_simp
  have j: "ascii ''customer'' @ [95] @ ascii ''service'' = ascii ''customer_service''"
    by code_simp
  note inst = add_bigrams_detected [OF g, of service_corpus 0 "[]" "ascii ''customer''"
      "ascii ''service''" "[]"]
  from inst have "add_bigrams demo_env service_corpus = map ?F service_corpus"
    by blast
  then have "add_bigrams demo_env service_corpus ! 0 = ?F (service_corpus ! 0)"
    using len by (simp only: nth_map)
  then have a: "add_bigrams demo_env service_corpus ! 0
       = [ascii ''customer_service'', ascii ''customer'', ascii ''service'']"
    by (simp only: r0 ev)
  from inst hyp
  have "\<exists>front. add_bigrams demo_env service_corpus ! 0
                   = front @ [] @ ascii ''customer'' # ascii ''service'' # []
                 \<and> ascii ''customer'' @ [95] @ ascii ''service'' \<in> set front"
    by blast
  then have b: "\<exists>front. add_bigrams demo_env service_corpus ! 0
                   = front @ [ascii ''customer'', ascii ''service'']
                 \<and> ascii ''customer_service'' \<in> set front"
    by (simp only: j append_Nil)
  from r0 cnt sc a b show ?thesis by blast
qed

section \<open>Responses that are not strings\<close>

text \<open>
  C9, as stated, fails: \<open>clean_and_tokenize_texts\<close> has no filter for entries that
  are not strings. On a list with a \<open>None\<close> entry the test \<open>large_space in r\<close> of
  the first loop raises \<open>TypeError\<close>.
\<close>

theorem none_entry_raises:
  "clean_and_tokenize_texts demo_env (Many [PyNone, PyStr (ascii ''tasty coffee'')])
       (ascii ''english'') (MinInt 2) (MinInt 4) 1 = Inl TypeError"
  by code_simp

text \<open>
  C9, amended. A list with an entry that is not a string (\<open>None\<close> or a number) makes
  \<open>clean_and_tokenize_texts\<close> raise \<open>TypeError\<close>. The values that are not strings
  are filtered out before, in \<open>prepare_data\<close>: the text of a row is built from the
  cells of the included columns that are strings, the other cells are skipped, and every
  response handed to \<open>clean_and_tokenize_texts\<close> is a string.
\<close>

theorem non_string_entries:
  "(\<not> list_all is_str rs \<longrightarrow>
      clean_and_tokenize_texts e (Many rs) input_language min_freq min_word_len sample_size
        = Inl TypeError)
   \<and> list_all is_str (raw_texts df_responses incl_mc_questions)
   \<and> row_text cols row = row_text (filter (\<lambda>c. is_str (row c)) cols) row"
proof -
  have a: "clean_and_tokenize_texts e (Many rs) input_language min_freq min_word_len sample_size
        = Inl TypeError" if "\<not> list_all is_str rs"
  proof -
    from that have "\<exists>r\<in>set rs. \<not> is_str r" by (simp add: list_all_iff)
    from mapM_no_large_spaces_TypeError [OF this] show ?thesis
      by (simp add: clean_and_tokenize_texts_def surviving_def)
  qed
  have b: "list_all is_str (raw_texts df_responses incl_mc_questions)"
    by (simp add: raw_texts_def list_all_iff)
  have c: "row_text cols row = row_text (filter (\<lambda>c. is_str (row c)) cols) row"
    unfolding row_text_def by (rule arg_cong [where f = "drop 1"]) (rule row_text_foldl)
  from a b c show ?thesis by blast
qed

text \<open>
  C9, amended, at a list with a \<open>None\<close> entry and at a table row with one cell that
  is not a string among the three free-text columns.
\<close>

theorem non_string_entries_witness:
  "clean_and_tokenize_texts demo_env (Many [PyNone, PyStr (ascii ''tasty coffee'')])
       (ascii ''english'') (MinInt 2) (MinInt 4) 1 = Inl TypeError
   \<and> list_all is_str (raw_texts [demo_row] False)
   \<and> row_text (included_cols False) demo_row = ascii ''tasty coffee service''"
proof -
  have h: "\<not> list_all is_str [PyNone, PyStr (ascii ''tasty coffee'')]"
    by simp
  have ev: "row_text (filter (\<lambda>c. is_str (demo_row c)) (included_cols False)) demo_row
            = ascii ''tasty coffee service''"
    by code_simp
  from non_string_entries [of "[PyNone, PyStr (ascii ''tasty coffee'')]" demo_env
      "ascii ''english''" "MinInt 2" "MinInt 4" 1 "[demo_row]" False "included_cols False"
      demo_row] h
  have "clean_and_tokenize_texts demo_env (Many [PyNone, PyStr (ascii ''tasty coffee'')])
       (ascii ''english'') (MinInt 2) (MinInt 4) 1 = Inl TypeError
   \<and> list_all is_str (raw_texts [demo_row] False)
   \<and> row_text (included_cols False) demo_row
       = row_text (filter (\<lambda>c. is_str (demo_row c)) (included_cols False)) demo_row"
    by blast
  then show ?thesis by (simp only: ev)
qed

section \<open>The order of the keyword buckets\<close>




end
